theory Spec2Isabelle
  imports Main "HOL-Library.List_Lexorder" "HOL-Library.Multiset" "HOL-Library.Word"
begin

section \<open>File path extractor: strings of the Python runtime\<close>

text \<open>
  A Python \<open>str\<close> is a sequence of Unicode code points; a code point is a natural
  number. Python compares two \<open>str\<close> values lexicographically by code point, a proper
  prefix being smaller: this is the order of \<open>HOL-Library.List_Lexorder\<close> on
  \<open>nat list\<close>. A \<open>bytes\<close> value is a list of 8-bit words.
\<close>

type_synonym str = "nat list"
type_synonym bytes = "8 word list"

definition ascii :: "string \<Rightarrow> str" where
  \<comment> \<open>The code points of an ASCII literal of the source.\<close>
  "ascii s = map of_char s"

definition isspace :: "nat \<Rightarrow> bool" where
  \<comment> \<open>The code points that \<open>str.strip()\<close> removes and \<open>str.isspace()\<close> accepts.\<close>
  "isspace c \<longleftrightarrow>
     (9 \<le> c \<and> c \<le> 13) \<or> (28 \<le> c \<and> c \<le> 32) \<or> c = 133 \<or> c = 160 \<or> c = 5760 \<or>
     (8192 \<le> c \<and> c \<le> 8202) \<or> c = 8232 \<or> c = 8233 \<or> c = 8239 \<or> c = 8287 \<or>
     c = 12288"

definition strip :: "str \<Rightarrow> str" where
  \<comment> \<open>\<open>s.strip()\<close>: leading and trailing whitespace removed.\<close>
  "strip s = rev (dropWhile isspace (rev (dropWhile isspace s)))"

definition isascii :: "str \<Rightarrow> bool" where
  "isascii s = list_all (\<lambda>c. c < 128) s"

definition ascii_lower :: "nat \<Rightarrow> nat" where
  "ascii_lower c = (if 65 \<le> c \<and> c \<le> 90 then c + 32 else c)"

definition lower :: "(str \<Rightarrow> str) \<Rightarrow> str \<Rightarrow> str" where
  \<comment> \<open>\<open>s.lower()\<close>. On an ASCII string it maps \<open>A..Z\<close> to \<open>a..z\<close>; on any other string
      it applies the Unicode case mapping of the runtime, which is the parameter
      \<open>unicode_lower\<close> (a table of the interpreter, not of this program).\<close>
  "lower unicode_lower s = (if isascii s then map ascii_lower s else unicode_lower s)"

fun join :: "str \<Rightarrow> str list \<Rightarrow> str" where
  \<comment> \<open>\<open>sep.join(xs)\<close>\<close>
  "join sep [] = []"
| "join sep [x] = x"
| "join sep (x # y # ys) = x @ sep @ join sep (y # ys)"

definition startswith :: "string \<Rightarrow> string \<Rightarrow> bool" where
  \<comment> \<open>\<open>s.startswith(p)\<close>\<close>
  "startswith s p = (take (length p) s = p)"

definition is_linebreak :: "nat \<Rightarrow> bool" where
  \<comment> \<open>The line boundaries of \<open>str.splitlines()\<close>.\<close>
  "is_linebreak c \<longleftrightarrow>
     (10 \<le> c \<and> c \<le> 13) \<or> (28 \<le> c \<and> c \<le> 30) \<or> c = 133 \<or> c = 8232 \<or> c = 8233"

fun splitlines_from :: "str \<Rightarrow> str \<Rightarrow> str list" where
  \<comment> \<open>\<open>cur\<close> is the line read so far. A carriage return followed by a line feed is one
      boundary; a last line with no boundary after it is kept when it is not empty.\<close>
  "splitlines_from cur [] = (if cur = [] then [] else [cur])"
| "splitlines_from cur [c] = (if is_linebreak c then [cur] else [cur @ [c]])"
| "splitlines_from cur (c # d # ds) =
     (if c = 13 \<and> d = 10 then cur # splitlines_from [] ds
      else if is_linebreak c then cur # splitlines_from [] (d # ds)
      else splitlines_from (cur @ [c]) (d # ds))"

definition splitlines :: "str \<Rightarrow> str list" where
  "splitlines s = splitlines_from [] s"

fun universal_newlines :: "str \<Rightarrow> str" where
  \<comment> \<open>Reading in text mode with the default \<open>newline=None\<close>: \<open>\r\n\<close> and \<open>\r\<close>
      become \<open>\n\<close>.\<close>
  "universal_newlines [] = []"
| "universal_newlines [c] = (if c = 13 then [10] else [c])"
| "universal_newlines (c # d # ds) =
     (if c = 13 \<and> d = 10 then 10 # universal_newlines ds
      else if c = 13 then 10 # universal_newlines (d # ds)
      else c # universal_newlines (d # ds))"

section \<open>The environment of a run\<close>

datatype encoding = UTF8 | GBK

datatype exn = AttributeError | UnicodeDecodeError | UnicodeEncodeError | OSError

datatype fsentry =
    RegularFile bytes
  | UnreadableFile
  | Directory
  | OtherEntry

text \<open>
  What the program prints, one constructor for each \<open>print\<close> of the source (the texts
  are Chinese; the constructor carries what the text interpolates). \<open>Text s\<close> is a
  line whose whole content is the computed string \<open>s\<close>.
\<close>

datatype msg =
    ErrFileNotFound str
  | ErrNotAFile str
  | ErrUtf8TryGbk
  | ErrCannotRead exn
  | ErrReadException exn
  | ErrExtract exn
  | HintNothingToCopy
  | OkCopied nat
  | WarnUnsupported string
  | PleaseCopyManually
  | Text str
  | ErrClipboard exn
  | Processing str
  | HintNoValidPaths
  | Found nat
  | Listing nat str

text \<open>
  \<open>platform\<close> is \<open>sys.platform\<close>; \<open>fs\<close> maps a path to what is there
  (\<open>UnreadableFile\<close> is a regular file whose read raises \<open>OSError\<close>); \<open>popen_ok\<close> says
  whether starting the \<open>clip\<close> subprocess succeeds. The next three fields are the tables
  of the interpreter for strings that are not ASCII: case mapping and the two codecs.

  \<open>stdout_encodes m\<close> says whether the encoding of standard output can encode the text
  of the message \<open>m\<close>; a \<open>print\<close> of a text it cannot encode raises
  \<open>UnicodeEncodeError\<close> and writes nothing. The success message and the warning of
  \<open>copy_file_paths\<close> begin with the symbols U+2705 and U+26A0, which a GBK console
  cannot encode. The prints inside the \<open>try\<close> of \<open>copy_file_paths\<close> consult this field.
  The other prints of the program are Chinese text, ASCII and the paths, which the run
  has printed before it reaches \<open>copy_file_paths\<close>; they are taken to succeed.
\<close>

record env =
  platform :: string
  fs :: "str \<Rightarrow> fsentry option"
  popen_ok :: bool
  unicode_lower :: "str \<Rightarrow> str"
  codec_decode :: "encoding \<Rightarrow> bytes \<Rightarrow> str option"
  codec_encode :: "encoding \<Rightarrow> str \<Rightarrow> bytes option"
  stdout_encodes :: "msg \<Rightarrow> bool"

definition decode :: "env \<Rightarrow> encoding \<Rightarrow> bytes \<Rightarrow> str option" where
  \<comment> \<open>\<open>bs.decode(enc)\<close>, \<open>None\<close> for \<open>UnicodeDecodeError\<close>. UTF-8 and GBK both decode a
      byte below 128 to the code point of the same number.\<close>
  "decode E enc bs =
     (if list_all (\<lambda>b. b < 128) bs then Some (map unat bs) else codec_decode E enc bs)"

definition encode :: "env \<Rightarrow> encoding \<Rightarrow> str \<Rightarrow> bytes option" where
  \<comment> \<open>\<open>s.encode(enc)\<close>, \<open>None\<close> for \<open>UnicodeEncodeError\<close>.\<close>
  "encode E enc s = (if isascii s then Some (map of_nat s) else codec_encode E enc s)"

section \<open>\<open>FilePathExtractor\<close>\<close>

record extractor =
  clipboard_encoding :: encoding

definition get_system_clipboard_encoding :: "env \<Rightarrow> encoding" where
  "get_system_clipboard_encoding E = (if startswith (platform E) ''win'' then GBK else UTF8)"

definition init :: "env \<Rightarrow> extractor" where
  "init E = \<lparr>clipboard_encoding = get_system_clipboard_encoding E\<rparr>"

subsection \<open>\<open>extract_file_paths\<close>\<close>

text \<open>
  The elements of \<open>content\<close> are Python values. \<open>line.strip()\<close> raises
  \<open>AttributeError\<close> on a value that has no such method.
\<close>

datatype pyval = PStr str | PNone | PInt int

fun py_strip :: "pyval \<Rightarrow> exn + str" where
  "py_strip (PStr s) = Inr (strip s)"
| "py_strip _ = Inl AttributeError"

fun comprehension :: "pyval list \<Rightarrow> exn + str list" where
  \<comment> \<open>\<open>[line.strip() for line in content if line.strip()]\<close>\<close>
  "comprehension [] = Inr []"
| "comprehension (line # rest) =
     (case py_strip line of
        Inl e \<Rightarrow> Inl e
      | Inr t \<Rightarrow>
          (case comprehension rest of
             Inl e \<Rightarrow> Inl e
           | Inr ts \<Rightarrow> Inr (if t = [] then ts else t # ts)))"

fun unique_loop :: "str list \<Rightarrow> str list \<Rightarrow> str list" where
  \<comment> \<open>\<open>for path in file_paths: if path not in unique_paths: unique_paths.append(path)\<close>\<close>
  "unique_loop unique_paths [] = unique_paths"
| "unique_loop unique_paths (path # rest) =
     unique_loop (if path \<in> set unique_paths then unique_paths else unique_paths @ [path]) rest"

definition try_body :: "env \<Rightarrow> pyval list \<Rightarrow> exn + str list" where
  \<comment> \<open>The body of the \<open>try\<close>. \<open>sorted(xs, key=f)\<close> is stable; \<open>sort_key\<close> is the stable
      sort by key of the library.\<close>
  "try_body E content =
     (case comprehension content of
        Inl e \<Rightarrow> Inl e
      | Inr file_paths \<Rightarrow>
          Inr (sort_key (lower (unicode_lower E)) (unique_loop [] file_paths)))"

definition extract_file_paths :: "env \<Rightarrow> pyval list \<Rightarrow> msg list \<times> str list" where
  \<comment> \<open>Returns what it printed and the list it returns.\<close>
  "extract_file_paths E content =
     (if content = [] then ([], [])
      else (case try_body E content of
              Inr sorted_paths \<Rightarrow> ([], sorted_paths)
            | Inl e \<Rightarrow> ([ErrExtract e], [])))"

subsection \<open>\<open>read_params_file\<close>\<close>

definition is_file :: "fsentry \<Rightarrow> bool" where
  "is_file ent = (case ent of RegularFile bs \<Rightarrow> True | UnreadableFile \<Rightarrow> True | _ \<Rightarrow> False)"

definition read_text :: "env \<Rightarrow> str \<Rightarrow> encoding \<Rightarrow> exn + str" where
  \<comment> \<open>\<open>Path(filepath).read_text(encoding=enc)\<close>\<close>
  "read_text E filepath enc =
     (case fs E filepath of
        Some (RegularFile bs) \<Rightarrow>
          (case decode E enc bs of
             None \<Rightarrow> Inl UnicodeDecodeError
           | Some s \<Rightarrow> Inr (universal_newlines s))
      | _ \<Rightarrow> Inl OSError)"

definition read_params_file :: "env \<Rightarrow> str \<Rightarrow> msg list \<times> str list option" where
  \<comment> \<open>Returns what it printed and the content, \<open>None\<close> as in the source.\<close>
  "read_params_file E filepath =
     (case fs E filepath of
        None \<Rightarrow> ([ErrFileNotFound filepath], None)
      | Some ent \<Rightarrow>
          if \<not> is_file ent then ([ErrNotAFile filepath], None)
          else (case read_text E filepath UTF8 of
                  Inr text \<Rightarrow> ([], Some (splitlines text))
                | Inl e \<Rightarrow>
                    if e = UnicodeDecodeError then
                      (case read_text E filepath GBK of
                         Inr text \<Rightarrow> ([ErrUtf8TryGbk], Some (splitlines text))
                       | Inl e' \<Rightarrow> ([ErrUtf8TryGbk, ErrCannotRead e'], None))
                    else ([ErrReadException e], None)))"

subsection \<open>\<open>copy_file_paths\<close>\<close>

fun prints :: "env \<Rightarrow> msg list \<Rightarrow> msg list \<times> exn option" where
  \<comment> \<open>A sequence of \<open>print\<close> calls: what reached the console, and the exception of the
      first call whose text standard output cannot encode.\<close>
  "prints E [] = ([], None)"
| "prints E (m # ms) =
     (if stdout_encodes E m then (case prints E ms of (out, r) \<Rightarrow> (m # out, r))
      else ([], Some UnicodeEncodeError))"

definition manual_fallback :: "string \<Rightarrow> str \<Rightarrow> msg list" where
  \<comment> \<open>The five prints of the branch for a platform other than Windows: the warning, the
      request to copy by hand, and \<open>result\<close> between two lines of fifty dashes.\<close>
  "manual_fallback p result =
     [WarnUnsupported p, PleaseCopyManually,
      Text (replicate 50 45), Text result, Text (replicate 50 45)]"

definition copy_try_body ::
  "env \<Rightarrow> extractor \<Rightarrow> str list \<Rightarrow> msg list \<times> bytes option \<times> (exn + bool)" where
  \<comment> \<open>The body of the \<open>try\<close>: what it printed, the bytes it piped to \<open>clip\<close> (if any), and
      the value it returns or the exception it raises. Starting the subprocess comes
      before encoding, and the pipe before the print of the success message, as in the
      source.\<close>
  "copy_try_body E self file_paths =
     (let result = join [10] file_paths in
      if startswith (platform E) ''win'' then
        (if \<not> popen_ok E then ([], None, Inl OSError)
         else (case encode E (clipboard_encoding self) result of
                 None \<Rightarrow> ([], None, Inl UnicodeEncodeError)
               | Some data \<Rightarrow>
                   (case prints E [OkCopied (length file_paths)] of
                      (out, None) \<Rightarrow> (out, Some data, Inr True)
                    | (out, Some e) \<Rightarrow> (out, Some data, Inl e))))
      else
        (case prints E (manual_fallback (platform E) result) of
           (out, None) \<Rightarrow> (out, None, Inr False)
         | (out, Some e) \<Rightarrow> (out, None, Inl e)))"

definition copy_file_paths ::
  "env \<Rightarrow> extractor \<Rightarrow> str list \<Rightarrow> msg list \<times> bytes option \<times> bool" where
  \<comment> \<open>Returns what it printed, the bytes it piped to \<open>clip\<close> (if any) and the value it
      returns. The handler prints the error and returns \<open>False\<close>.\<close>
  "copy_file_paths E self file_paths =
     (if file_paths = [] then ([HintNothingToCopy], None, False)
      else (case copy_try_body E self file_paths of
              (out, clip, Inr r) \<Rightarrow> (out, clip, r)
            | (out, clip, Inl e) \<Rightarrow> (out @ [ErrClipboard e], clip, False)))"

subsection \<open>\<open>process\<close> and \<open>main\<close>\<close>

definition listing :: "str list \<Rightarrow> msg list" where
  \<comment> \<open>\<open>for i, path in enumerate(file_paths, 1): print(...)\<close>\<close>
  "listing file_paths =
     map (\<lambda>(i, path). Listing i path) (zip [1 ..< Suc (length file_paths)] file_paths)"

definition process :: "env \<Rightarrow> extractor \<Rightarrow> str \<Rightarrow> msg list \<times> bytes option \<times> bool" where
  "process E self params_file =
     (case read_params_file E params_file of
        (out1, None) \<Rightarrow> (Processing params_file # out1, None, False)
      | (out1, Some content) \<Rightarrow>
          (case extract_file_paths E (map PStr content) of
             (out2, file_paths) \<Rightarrow>
               if file_paths = [] then
                 (Processing params_file # out1 @ out2 @ [HintNoValidPaths], None, True)
               else
                 (case copy_file_paths E self file_paths of
                    (out3, clip, ok) \<Rightarrow>
                      (Processing params_file # out1 @ out2 @ [Found (length file_paths)]
                         @ listing file_paths @ out3,
                       clip, ok))))"

record outcome =
  console :: "msg list"
  clipboard :: "bytes option"
  exit_code :: nat

definition main :: "env \<Rightarrow> str \<Rightarrow> outcome" where
  \<comment> \<open>\<open>sys.exit(1)\<close> when \<open>process\<close> returns \<open>False\<close>; otherwise the interpreter ends
      with exit code 0. No call of \<open>process\<close> raises in this model, so the two
      handlers of \<open>main\<close> have no branch.\<close>
  "main E params_file =
     (case process E (init E) params_file of
        (out, clip, success) \<Rightarrow>
          \<lparr>console = out, clipboard = clip, exit_code = (if success then 0 else 1)\<rparr>)"

subsection \<open>Environments for concrete runs\<close>

definition ascii_bytes :: "string \<Rightarrow> bytes" where
  "ascii_bytes s = map of_char s"

definition gbk_name_bytes :: bytes where
  \<comment> \<open>The file name \<open>U+4F60 .txt\<close> in GBK: the first two bytes are not UTF-8.\<close>
  "gbk_name_bytes = [196, 227, 46, 116, 120, 116]"

definition gbk_name_text :: str where
  "gbk_name_text = [20320, 46, 116, 120, 116]"

definition test_env :: "string \<Rightarrow> (str \<Rightarrow> fsentry option) \<Rightarrow> env" where
  \<comment> \<open>An interpreter that knows one string beyond ASCII, on a console that encodes
      every message.\<close>
  "test_env p f =
     \<lparr>platform = p, fs = f, popen_ok = True,
      unicode_lower = (\<lambda>s. s),
      codec_decode = (\<lambda>enc bs. if enc = GBK \<and> bs = gbk_name_bytes then Some gbk_name_text else None),
      codec_encode = (\<lambda>enc s. if enc = GBK \<and> s = gbk_name_text then Some gbk_name_bytes else None),
      stdout_encodes = (\<lambda>m. True)\<rparr>"

definition params_path :: str where
  "params_path = ascii ''sel.tmp''"

definition one_file :: "fsentry \<Rightarrow> str \<Rightarrow> fsentry option" where
  "one_file ent = (\<lambda>p. if p = params_path then Some ent else None)"

definition no_file :: "str \<Rightarrow> fsentry option" where
  "no_file = (\<lambda>p. None)"

definition unsupported_env :: env where
  \<comment> \<open>A platform with no clipboard command; the file lists \<open>x.txt\<close> and \<open>y.txt\<close>.\<close>
  "unsupported_env = test_env ''linux'' (one_file (RegularFile (ascii_bytes ''x.txt\<newline>y.txt'')))"

definition blank_env :: env where
  \<comment> \<open>The file holds blank lines only.\<close>
  "blank_env = test_env ''win32'' (one_file (RegularFile (ascii_bytes ''  \<newline>\<newline> '')))"

definition utf8_env :: env where
  "utf8_env = test_env ''win32'' (one_file (RegularFile (ascii_bytes ''y.txt\<newline>x.txt\<newline>'')))"

definition gbk_env :: env where
  \<comment> \<open>The file decodes as GBK and not as UTF-8.\<close>
  "gbk_env = test_env ''win32'' (one_file (RegularFile gbk_name_bytes))"

definition binary_env :: env where
  \<comment> \<open>The file decodes under neither encoding.\<close>
  "binary_env = test_env ''win32'' (one_file (RegularFile [255, 254]))"

definition directory_env :: env where
  "directory_env = test_env ''win32'' (one_file Directory)"

definition missing_env :: env where
  "missing_env = test_env ''win32'' no_file"

definition gbk_console :: "msg \<Rightarrow> bool" where
  \<comment> \<open>A console in GBK: the two messages that begin with a symbol cannot be encoded.\<close>
  "gbk_console m = (case m of WarnUnsupported p \<Rightarrow> False | OkCopied n \<Rightarrow> False | _ \<Rightarrow> True)"

definition unsupported_gbk_console_env :: env where
  "unsupported_gbk_console_env = unsupported_env\<lparr>stdout_encodes := gbk_console\<rparr>"

definition windows_gbk_console_env :: env where
  "windows_gbk_console_env = utf8_env\<lparr>stdout_encodes := gbk_console\<rparr>"

section \<open>Unfolding the definitions\<close>

lemmas fixture_defs =
  unsupported_env_def blank_env_def utf8_env_def gbk_env_def binary_env_def directory_env_def
  missing_env_def unsupported_gbk_console_env_def windows_gbk_console_env_def gbk_console_def
  test_env_def one_file_def no_file_def params_path_def ascii_def ascii_bytes_def
  gbk_name_bytes_def gbk_name_text_def

lemmas run_defs =
  main_def process_def read_params_file_def read_text_def decode_def encode_def is_file_def
  splitlines_def is_linebreak_def extract_file_paths_def try_body_def strip_def isspace_def
  lower_def isascii_def ascii_lower_def copy_file_paths_def copy_try_body_def
  manual_fallback_def startswith_def init_def
  get_system_clipboard_encoding_def listing_def

section \<open>Properties of the built-in string operations\<close>

text \<open>
  A stable sort by key has one possible result, so the sorting algorithm of the runtime
  computes what \<open>sort_key\<close> computes.
\<close>

lemma stable_sort_unique:
  assumes "mset ys = mset xs"
    and "\<And>k. k \<in> set ys \<Longrightarrow> filter (\<lambda>x. f k = f x) ys = filter (\<lambda>x. f k = f x) xs"
    and "sorted (map f ys)"
  shows "sort_key f xs = ys"
  using assms by (rule properties_for_sort_key)

lemma last_dropWhile_nonempty:
  "dropWhile P xs \<noteq> [] \<Longrightarrow> last (dropWhile P xs) = last xs"
proof -
  assume ne: "dropWhile P xs \<noteq> []"
  have "xs = takeWhile P xs @ dropWhile P xs" by simp
  then have "last xs = last (takeWhile P xs @ dropWhile P xs)" by simp
  also have "\<dots> = last (dropWhile P xs)" using ne by (rule last_appendR)
  finally show ?thesis by simp
qed

lemma strip_Nil: "strip [] = []"
  by (simp add: strip_def)

lemma strip_hd: "strip s \<noteq> [] \<Longrightarrow> \<not> isspace (hd (strip s))"
proof -
  assume ne: "strip s \<noteq> []"
  let ?u = "dropWhile isspace s"
  let ?v = "dropWhile isspace (rev ?u)"
  have v: "?v \<noteq> []" using ne by (simp add: strip_def)
  have u: "?u \<noteq> []"
  proof
    assume "?u = []"
    then have "?v = []" by (simp only: rev.simps dropWhile.simps)
    with v show False by simp
  qed
  have "hd (strip s) = last ?v" using v by (simp add: strip_def hd_rev)
  also have "\<dots> = last (rev ?u)" using v by (rule last_dropWhile_nonempty)
  also have "\<dots> = hd ?u" using u by (simp add: last_rev)
  finally show ?thesis using u hd_dropWhile [of isspace s] by simp
qed

lemma strip_last: "strip s \<noteq> [] \<Longrightarrow> \<not> isspace (last (strip s))"
proof -
  assume ne: "strip s \<noteq> []"
  let ?v = "dropWhile isspace (rev (dropWhile isspace s))"
  have v: "?v \<noteq> []" using ne by (simp add: strip_def)
  have "last (strip s) = hd ?v" using v by (simp add: strip_def last_rev)
  then show ?thesis using v hd_dropWhile [of isspace "rev (dropWhile isspace s)"] by simp
qed

lemma strip_fixed: "t \<noteq> [] \<Longrightarrow> \<not> isspace (hd t) \<Longrightarrow> \<not> isspace (last t) \<Longrightarrow> strip t = t"
proof -
  assume ne: "t \<noteq> []" and h: "\<not> isspace (hd t)" and l: "\<not> isspace (last t)"
  have a: "dropWhile isspace t = t" using ne h by (cases t) simp_all
  have "hd (rev t) = last t" using ne by (simp add: hd_rev)
  then have b: "dropWhile isspace (rev t) = rev t" using ne l
    by (simp add: dropWhile_eq_self_iff)
  show ?thesis by (simp add: strip_def a b)
qed

lemma strip_idem: "strip (strip s) = strip s"
proof (cases "strip s = []")
  case True
  then show ?thesis by (simp add: strip_Nil)
next
  case False
  then show ?thesis by (intro strip_fixed strip_hd strip_last)
qed

lemma strip_not_blank: "strip s \<noteq> [] \<Longrightarrow> \<not> list_all isspace (strip s)"
proof
  assume ne: "strip s \<noteq> []" and all: "list_all isspace (strip s)"
  from ne have "hd (strip s) \<in> set (strip s)" by simp
  with all have "isspace (hd (strip s))" by (simp add: list_all_iff)
  with strip_hd [OF ne] show False by simp
qed

section \<open>Properties of the stages of \<open>extract_file_paths\<close>\<close>

lemma comprehension_strs:
  "comprehension (map PStr L) = Inr (filter (\<lambda>t. t \<noteq> []) (map strip L))"
  by (induction L) simp_all

lemma unique_loop_set: "set (unique_loop acc xs) = set acc \<union> set xs"
  by (induction xs arbitrary: acc) auto

lemma unique_loop_distinct: "distinct acc \<Longrightarrow> distinct (unique_loop acc xs)"
  by (induction xs arbitrary: acc) auto

lemma unique_loop_id: "distinct (acc @ xs) \<Longrightarrow> unique_loop acc xs = acc @ xs"
  by (induction xs arbitrary: acc) auto

lemma remdups_drop_seen: "x \<in> set zs \<Longrightarrow> remdups (ys @ x # zs) = remdups (ys @ zs)"
  by (induction ys) auto

lemma unique_loop_first_occurrence:
  "distinct acc \<Longrightarrow> unique_loop acc xs = rev (remdups (rev (acc @ xs)))"
proof (induction xs arbitrary: acc)
  case Nil
  then show ?case by (simp add: distinct_remdups_id)
next
  case (Cons x xs)
  show ?case
  proof (cases "x \<in> set acc")
    case True
    then have "remdups (rev xs @ x # rev acc) = remdups (rev xs @ rev acc)"
      by (intro remdups_drop_seen) simp
    with True Cons show ?thesis by simp
  next
    case False
    with Cons.prems have "distinct (acc @ [x])" by simp
    from Cons.IH [OF this] False show ?thesis by simp
  qed
qed

lemma normalizer_eq:
  "snd (extract_file_paths E (map PStr L)) =
     sort_key (lower (unicode_lower E)) (unique_loop [] (filter (\<lambda>t. t \<noteq> []) (map strip L)))"
  by (simp add: extract_file_paths_def try_body_def comprehension_strs)

lemma sorted_normalizer:
  "sorted (map (lower (unicode_lower E)) (snd (extract_file_paths E (map PStr L))))"
  by (simp add: normalizer_eq)

lemma distinct_normalizer: "distinct (snd (extract_file_paths E (map PStr L)))"
  by (simp add: normalizer_eq unique_loop_distinct)

lemma set_normalizer:
  "set (snd (extract_file_paths E (map PStr L))) = set (filter (\<lambda>t. t \<noteq> []) (map strip L))"
  by (simp add: normalizer_eq unique_loop_set)

lemma normalizer_entry:
  assumes "p \<in> set (snd (extract_file_paths E (map PStr L)))"
  shows "p \<noteq> []" and "strip p = p" and "\<not> list_all isspace p"
proof -
  from assms obtain l where p: "p = strip l" and ne: "strip l \<noteq> []"
    by (auto simp: set_normalizer)
  show "p \<noteq> []" using p ne by simp
  show "strip p = p" using p by (simp add: strip_idem)
  show "\<not> list_all isspace p" using p ne by (simp add: strip_not_blank)
qed

section \<open>Properties of \<open>process\<close> and \<open>main\<close>\<close>

lemma process_read_failed:
  "read_params_file E f = (out1, None) \<Longrightarrow> process E self f = (Processing f # out1, None, False)"
  by (simp add: process_def)

lemma process_read_ok:
  "read_params_file E f = (out1, Some content) \<Longrightarrow>
   extract_file_paths E (map PStr content) = (out2, file_paths) \<Longrightarrow>
   process E self f =
     (if file_paths = [] then (Processing f # out1 @ out2 @ [HintNoValidPaths], None, True)
      else (Processing f # out1 @ out2 @ [Found (length file_paths)] @ listing file_paths
              @ fst (copy_file_paths E self file_paths),
            snd (copy_file_paths E self file_paths)))"
  by (simp add: process_def split: prod.splits)

lemma main_read_failed:
  "read_params_file E f = (out1, None) \<Longrightarrow>
   main E f = \<lparr>console = Processing f # out1, clipboard = None, exit_code = 1\<rparr>"
  by (simp add: main_def process_read_failed)

lemma read_text_regular:
  "fs E f = Some (RegularFile bs) \<Longrightarrow>
   read_text E f enc =
     (case decode E enc bs of None \<Rightarrow> Inl UnicodeDecodeError
      | Some s \<Rightarrow> Inr (universal_newlines s))"
  by (simp add: read_text_def)

lemma read_params_file_regular:
  "fs E f = Some (RegularFile bs) \<Longrightarrow>
   read_params_file E f =
     (case decode E UTF8 bs of
        Some t \<Rightarrow> ([], Some (splitlines (universal_newlines t)))
      | None \<Rightarrow>
          (case decode E GBK bs of
             Some t \<Rightarrow> ([ErrUtf8TryGbk], Some (splitlines (universal_newlines t)))
           | None \<Rightarrow> ([ErrUtf8TryGbk, ErrCannotRead UnicodeDecodeError], None)))"
  by (simp add: read_params_file_def read_text_regular is_file_def split: option.splits)

section \<open>Properties of \<open>copy_file_paths\<close>\<close>

lemma prints_eq:
  "prints E ms =
     (takeWhile (stdout_encodes E) ms,
      if list_all (stdout_encodes E) ms then None else Some UnicodeEncodeError)"
  by (induction ms) auto

text \<open>
  Off Windows the function returns \<open>False\<close> on both paths: after the five prints, or from
  the handler when one of them cannot be encoded; then the messages printed before it
  are followed by the error of the handler.
\<close>

lemma copy_file_paths_unsupported:
  "\<not> startswith (platform E) ''win'' \<Longrightarrow> file_paths \<noteq> [] \<Longrightarrow>
   copy_file_paths E self file_paths =
     (let ms = manual_fallback (platform E) (join [10] file_paths) in
      if list_all (stdout_encodes E) ms then (ms, None, False)
      else (takeWhile (stdout_encodes E) ms @ [ErrClipboard UnicodeEncodeError], None, False))"
  by (simp add: copy_file_paths_def copy_try_body_def prints_eq Let_def list_all_iff)

text \<open>
  On a GBK console the warning cannot be printed: off Windows the run prints the error
  of the handler in place of the fallback; on Windows the bytes have reached \<open>clip\<close>
  when the success message fails, and the run reports a failure. Both end with exit
  code 1.
\<close>

lemma unsupported_gbk_console_run:
  "main unsupported_gbk_console_env params_path =
     \<lparr>console = [Processing params_path, Found 2, Listing 1 (ascii ''x.txt''),
         Listing 2 (ascii ''y.txt''), ErrClipboard UnicodeEncodeError],
      clipboard = None, exit_code = 1\<rparr>"
  by (simp add: fixture_defs run_defs upt_rec)

lemma windows_gbk_console_run:
  "main windows_gbk_console_env params_path =
     \<lparr>console = [Processing params_path, Found 2, Listing 1 (ascii ''x.txt''),
         Listing 2 (ascii ''y.txt''), ErrClipboard UnicodeEncodeError],
      clipboard = Some (ascii_bytes ''x.txt\<newline>y.txt''), exit_code = 1\<rparr>"
  by (simp add: fixture_defs run_defs upt_rec)

section \<open>The normalised list\<close>

text \<open>
  Claim C3. For the lines \<open>"b.txt"\<close>, \<open>""\<close>, \<open>"A.txt"\<close>, \<open>"a.txt"\<close>, \<open>"  b.txt  "\<close> the
  function returns exactly \<open>"A.txt"\<close>, \<open>"a.txt"\<close>, \<open>"b.txt"\<close> and prints nothing: the
  comprehension drops the blank line and trims the padded line, the loop collapses the
  second \<open>"b.txt"\<close>, and the sort by lowered key puts both spellings of \<open>a.txt\<close>, each in
  its own letter case, before \<open>b.txt\<close>. This holds whatever the case mapping of the
  runtime does beyond ASCII.
\<close>

theorem C3_scenario_A:
  "comprehension (map PStr [ascii ''b.txt'', ascii '''', ascii ''A.txt'', ascii ''a.txt'',
       ascii ''  b.txt  '']) =
     Inr [ascii ''b.txt'', ascii ''A.txt'', ascii ''a.txt'', ascii ''b.txt''] \<and>
   unique_loop [] [ascii ''b.txt'', ascii ''A.txt'', ascii ''a.txt'', ascii ''b.txt''] =
     [ascii ''b.txt'', ascii ''A.txt'', ascii ''a.txt''] \<and>
   extract_file_paths E (map PStr [ascii ''b.txt'', ascii '''', ascii ''A.txt'', ascii ''a.txt'',
       ascii ''  b.txt  '']) =
     ([], [ascii ''A.txt'', ascii ''a.txt'', ascii ''b.txt''])"
  by (simp add: extract_file_paths_def try_body_def ascii_def strip_def isspace_def lower_def
      isascii_def ascii_lower_def)

text \<open>
  Claim C4. Normalising is idempotent: for every sequence of lines \<open>L\<close>, running
  \<open>extract_file_paths\<close> on its own result returns that result again.
\<close>

theorem C4_idempotent:
  "snd (extract_file_paths E (map PStr (snd (extract_file_paths E (map PStr L))))) =
   snd (extract_file_paths E (map PStr L))"
proof -
  let ?N = "snd (extract_file_paths E (map PStr L))"
  have "map strip ?N = ?N"
    by (rule map_idI) (rule normalizer_entry)
  moreover have "filter (\<lambda>t. t \<noteq> []) ?N = ?N"
    by (simp add: filter_id_conv normalizer_entry)
  ultimately have trim: "filter (\<lambda>t. t \<noteq> []) (map strip ?N) = ?N" by simp
  have uniq: "unique_loop [] ?N = ?N"
    using unique_loop_id [of "[]" ?N] by (simp add: distinct_normalizer)
  have "sort_key (lower (unicode_lower E)) ?N = ?N"
    by (rule sort_key_id_if_sorted) (rule sorted_normalizer)
  with trim uniq show ?thesis by (simp add: normalizer_eq [of E ?N])
qed

text \<open>
  Claim C5. For every sequence of lines the result is sorted ascending by the lowered
  entries, and the sort is stable: for every key \<open>k\<close>, the entries whose lowered text is
  \<open>k\<close> stand in the result in the order they have in the deduplicated sequence (the
  trimmed non-empty lines, which is what the comprehension yields, after the loop).
\<close>

theorem C5_sorted_stable:
  "sorted (map (lower (unicode_lower E)) (snd (extract_file_paths E (map PStr L)))) \<and>
   comprehension (map PStr L) = Inr (filter (\<lambda>t. t \<noteq> []) (map strip L)) \<and>
   (\<forall>k. filter (\<lambda>p. lower (unicode_lower E) p = k) (snd (extract_file_paths E (map PStr L))) =
        filter (\<lambda>p. lower (unicode_lower E) p = k)
          (unique_loop [] (filter (\<lambda>t. t \<noteq> []) (map strip L))))"
  by (simp add: sorted_normalizer comprehension_strs normalizer_eq sort_key_stable)

text \<open>
  Claim C6. For every sequence of lines the result holds no string twice. The loop
  compares the trimmed strings for equality and keeps the first occurrence of each: it
  equals removing, from the right, every element that occurs earlier.
\<close>

theorem C6_no_duplicates:
  "distinct (snd (extract_file_paths E (map PStr L))) \<and>
   unique_loop [] file_paths = rev (remdups (rev file_paths))"
  using unique_loop_first_occurrence [of "[]" file_paths] by (simp add: distinct_normalizer)

text \<open>
  Claim C7. For every sequence of lines, each entry of the result is non-empty, is not
  made of whitespace only and is already trimmed; the entries are exactly the non-empty
  trimmed lines.
\<close>

theorem C7_no_blank_entries:
  "list_all (\<lambda>p. p \<noteq> [] \<and> \<not> list_all isspace p \<and> strip p = p)
     (snd (extract_file_paths E (map PStr L))) \<and>
   set (snd (extract_file_paths E (map PStr L))) = set (filter (\<lambda>t. t \<noteq> []) (map strip L))"
proof
  show "list_all (\<lambda>p. p \<noteq> [] \<and> \<not> list_all isspace p \<and> strip p = p)
     (snd (extract_file_paths E (map PStr L)))"
    by (rule iffD2 [OF list_all_iff]) (blast intro: normalizer_entry dest: normalizer_entry)
  show "set (snd (extract_file_paths E (map PStr L))) =
     set (filter (\<lambda>t. t \<noteq> []) (map strip L))"
    by (rule set_normalizer)
qed

text \<open>
  Claim C10. \<open>extract_file_paths\<close> returns a list and raises nothing: on the empty list
  it returns the empty list and prints nothing; on a list of strings the body of the
  \<open>try\<close> completes and its value is returned; and whenever the body raises an
  exception, the handler prints the error and returns the empty list.
\<close>

theorem C10_extract_total:
  "extract_file_paths E [] = ([], []) \<and>
   (\<exists>r. try_body E (map PStr L) = Inr r \<and> extract_file_paths E (map PStr L) = ([], r)) \<and>
   (try_body E content = Inl e \<longrightarrow> extract_file_paths E content = ([ErrExtract e], []))"
proof -
  have "try_body E [] = Inr []" by (simp add: try_body_def)
  then show ?thesis
    by (auto simp: extract_file_paths_def try_body_def comprehension_strs)
qed

text \<open>
  A list whose second element is \<open>None\<close>: the body raises and the result is empty.
\<close>

theorem C10_extract_total_witness:
  "try_body utf8_env [PStr (ascii ''a''), PNone] = Inl AttributeError \<and>
   extract_file_paths utf8_env [PStr (ascii ''a''), PNone] = ([ErrExtract AttributeError], [])"
proof -
  have h: "try_body utf8_env [PStr (ascii ''a''), PNone] = Inl AttributeError"
    by (simp add: try_body_def)
  with C10_extract_total [of utf8_env "[]" "[PStr (ascii ''a''), PNone]" AttributeError]
  show ?thesis by simp
qed

section \<open>Reading the file\<close>

text \<open>
  Claim C8. For a regular file \<open>read_params_file\<close> decodes the bytes as UTF-8 first.
  If that succeeds, the lines are returned and nothing is printed. If it fails and GBK
  decodes the bytes, the lines of the GBK text are returned after the notice of the
  retry, and \<open>process\<close> goes on with them as with any content: the clipboard write and
  the returned flag are those of extracting and copying these lines. If both fail, the
  function prints the error and returns \<open>None\<close>; it does not raise. The retry happens if
  and only if UTF-8 decoding fails.
\<close>

theorem C8_utf8_then_gbk:
  "fs E f = Some (RegularFile bs) \<Longrightarrow>
   (decode E UTF8 bs = Some t \<longrightarrow>
      read_params_file E f = ([], Some (splitlines (universal_newlines t)))) \<and>
   (decode E UTF8 bs = None \<and> decode E GBK bs = Some t \<longrightarrow>
      read_params_file E f = ([ErrUtf8TryGbk], Some (splitlines (universal_newlines t))) \<and>
      snd (process E self f) =
        (let file_paths =
           snd (extract_file_paths E (map PStr (splitlines (universal_newlines t))))
         in if file_paths = [] then (None, True) else snd (copy_file_paths E self file_paths))) \<and>
   (decode E UTF8 bs = None \<and> decode E GBK bs = None \<longrightarrow>
      read_params_file E f = ([ErrUtf8TryGbk, ErrCannotRead UnicodeDecodeError], None)) \<and>
   (ErrUtf8TryGbk \<in> set (fst (read_params_file E f)) \<longleftrightarrow> decode E UTF8 bs = None)"
proof -
  assume reg: "fs E f = Some (RegularFile bs)"
  note rd = read_params_file_regular [OF reg]
  have a: "decode E UTF8 bs = Some t \<longrightarrow>
      read_params_file E f = ([], Some (splitlines (universal_newlines t)))"
    by (simp add: rd)
  have b: "decode E UTF8 bs = None \<and> decode E GBK bs = Some t \<longrightarrow>
      read_params_file E f = ([ErrUtf8TryGbk], Some (splitlines (universal_newlines t))) \<and>
      snd (process E self f) =
        (let file_paths =
           snd (extract_file_paths E (map PStr (splitlines (universal_newlines t))))
         in if file_paths = [] then (None, True) else snd (copy_file_paths E self file_paths))"
  proof
    assume d: "decode E UTF8 bs = None \<and> decode E GBK bs = Some t"
    then have r: "read_params_file E f =
        ([ErrUtf8TryGbk], Some (splitlines (universal_newlines t)))"
      by (simp add: rd)
    from process_read_ok [OF r surjective_pairing, of self]
    show "read_params_file E f = ([ErrUtf8TryGbk], Some (splitlines (universal_newlines t))) \<and>
      snd (process E self f) =
        (let file_paths =
           snd (extract_file_paths E (map PStr (splitlines (universal_newlines t))))
         in if file_paths = [] then (None, True) else snd (copy_file_paths E self file_paths))"
      using r by (simp add: Let_def)
  qed
  have c: "decode E UTF8 bs = None \<and> decode E GBK bs = None \<longrightarrow>
      read_params_file E f = ([ErrUtf8TryGbk, ErrCannotRead UnicodeDecodeError], None)"
    by (simp add: rd)
  have d: "ErrUtf8TryGbk \<in> set (fst (read_params_file E f)) \<longleftrightarrow> decode E UTF8 bs = None"
    by (simp add: rd split: option.splits)
  from a b c d show ?thesis by blast
qed

text \<open>
  Three files: one that only GBK decodes (the run copies its line and succeeds), one
  that UTF-8 decodes, and one that neither decodes.
\<close>

theorem C8_utf8_then_gbk_witness:
  "fs gbk_env params_path = Some (RegularFile gbk_name_bytes) \<and>
   decode gbk_env UTF8 gbk_name_bytes = None \<and>
   decode gbk_env GBK gbk_name_bytes = Some gbk_name_text \<and>
   read_params_file gbk_env params_path = ([ErrUtf8TryGbk], Some [gbk_name_text]) \<and>
   snd (process gbk_env (init gbk_env) params_path) = (Some gbk_name_bytes, True) \<and>
   fs utf8_env params_path = Some (RegularFile (ascii_bytes ''y.txt\<newline>x.txt\<newline>'')) \<and>
   decode utf8_env UTF8 (ascii_bytes ''y.txt\<newline>x.txt\<newline>'') =
     Some (ascii ''y.txt\<newline>x.txt\<newline>'') \<and>
   read_params_file utf8_env params_path = ([], Some [ascii ''y.txt'', ascii ''x.txt'']) \<and>
   fs binary_env params_path = Some (RegularFile [255, 254]) \<and>
   decode binary_env UTF8 [255, 254] = None \<and>
   decode binary_env GBK [255, 254] = None \<and>
   read_params_file binary_env params_path =
     ([ErrUtf8TryGbk, ErrCannotRead UnicodeDecodeError], None)"
proof -
  have g1: "fs gbk_env params_path = Some (RegularFile gbk_name_bytes)"
    by (simp add: fixture_defs)
  have g2: "decode gbk_env UTF8 gbk_name_bytes = None"
    by (simp add: fixture_defs decode_def)
  have g3: "decode gbk_env GBK gbk_name_bytes = Some gbk_name_text"
    by (simp add: fixture_defs decode_def)
  have g4: "splitlines (universal_newlines gbk_name_text) = [gbk_name_text]"
    by (simp add: fixture_defs splitlines_def is_linebreak_def)
  have g5: "snd (extract_file_paths gbk_env [PStr gbk_name_text]) = [gbk_name_text]"
    by (simp add: fixture_defs extract_file_paths_def try_body_def strip_def isspace_def)
  have g6: "snd (copy_file_paths gbk_env (init gbk_env) [gbk_name_text]) =
      (Some gbk_name_bytes, True)"
    by (simp add: fixture_defs copy_file_paths_def copy_try_body_def startswith_def encode_def
        init_def
        get_system_clipboard_encoding_def isascii_def)
  have g7: "gbk_name_text \<noteq> []" by (simp add: fixture_defs)
  have u1: "fs utf8_env params_path =
      Some (RegularFile (ascii_bytes ''y.txt\<newline>x.txt\<newline>''))"
    by (simp add: fixture_defs)
  have u2: "decode utf8_env UTF8 (ascii_bytes ''y.txt\<newline>x.txt\<newline>'') =
      Some (ascii ''y.txt\<newline>x.txt\<newline>'')"
    by (simp add: fixture_defs decode_def)
  have u3: "splitlines (universal_newlines (ascii ''y.txt\<newline>x.txt\<newline>'')) =
      [ascii ''y.txt'', ascii ''x.txt'']"
    by (simp add: fixture_defs splitlines_def is_linebreak_def)
  have b1: "fs binary_env params_path = Some (RegularFile [255, 254])"
    by (simp add: fixture_defs)
  have b2: "decode binary_env UTF8 [255, 254] = None"
    by (simp add: fixture_defs decode_def)
  have b3: "decode binary_env GBK [255, 254] = None"
    by (simp add: fixture_defs decode_def)
  from C8_utf8_then_gbk [OF g1, of gbk_name_text "init gbk_env"]
    C8_utf8_then_gbk [OF u1, of "ascii ''y.txt\<newline>x.txt\<newline>''"]
    C8_utf8_then_gbk [OF b1]
    g1 g2 g3 g7 u1 u2 b1 b2 b3
  show ?thesis by (simp add: g4 g5 g6 u3 Let_def)
qed

text \<open>
  Claim C9. When nothing exists at the path, \<open>read_params_file\<close> prints that the file
  does not exist and returns \<open>None\<close>; when the path exists and is not a regular file (a
  directory, or any other kind of entry), it prints that the path is not a file and
  returns \<open>None\<close>. In both cases \<open>main\<close> prints that error after the progress line,
  writes nothing to the clipboard and ends with exit code 1.
\<close>

theorem C9_missing_or_not_a_file:
  "(fs E f = None \<longrightarrow>
      read_params_file E f = ([ErrFileNotFound f], None) \<and>
      main E f =
        \<lparr>console = [Processing f, ErrFileNotFound f], clipboard = None, exit_code = 1\<rparr>) \<and>
   (fs E f = Some ent \<and> \<not> is_file ent \<longrightarrow>
      read_params_file E f = ([ErrNotAFile f], None) \<and>
      main E f =
        \<lparr>console = [Processing f, ErrNotAFile f], clipboard = None, exit_code = 1\<rparr>) \<and>
   \<not> is_file Directory \<and> \<not> is_file OtherEntry"
proof -
  have a: "read_params_file E f = ([ErrFileNotFound f], None)" if "fs E f = None"
    using that by (simp add: read_params_file_def)
  have b: "read_params_file E f = ([ErrNotAFile f], None)"
    if "fs E f = Some ent" and "\<not> is_file ent"
    using that by (simp add: read_params_file_def)
  have c: "\<not> is_file Directory \<and> \<not> is_file OtherEntry"
    by (simp add: is_file_def)
  from a b c main_read_failed [of E f] show ?thesis by auto
qed

text \<open>
  A path with nothing there, and a path that is a directory.
\<close>

theorem C9_missing_or_not_a_file_witness:
  "fs missing_env params_path = None \<and>
   read_params_file missing_env params_path = ([ErrFileNotFound params_path], None) \<and>
   exit_code (main missing_env params_path) = 1 \<and>
   fs directory_env params_path = Some Directory \<and>
   read_params_file directory_env params_path = ([ErrNotAFile params_path], None) \<and>
   exit_code (main directory_env params_path) = 1"
proof -
  have m: "fs missing_env params_path = None" by (simp add: fixture_defs)
  have d: "fs directory_env params_path = Some Directory" by (simp add: fixture_defs)
  from C9_missing_or_not_a_file [of missing_env params_path]
    C9_missing_or_not_a_file [of directory_env params_path Directory] m d
  show ?thesis by simp
qed

section \<open>The clipboard and the exit code\<close>

text \<open>
  Claim C1, as amended. On a platform whose name does not start with \<open>win\<close>,
  \<open>copy_file_paths\<close> on a non-empty list raises nothing, pipes nothing to a clipboard
  command and returns \<open>False\<close>; a run of \<open>main\<close> that reads the file and extracts that
  non-empty list writes nothing to the clipboard and ends with exit code 1. Provided
  that standard output can encode the five messages of the fallback, \<open>copy_file_paths\<close>
  prints exactly them (the warning, the request to copy by hand, and the newline-joined
  text between two lines of fifty dashes), and the console of the run ends with them.
\<close>

theorem C1_unsupported_platform:
  "\<not> startswith (platform E) ''win'' \<Longrightarrow> file_paths \<noteq> [] \<Longrightarrow>
   read_params_file E f = (out1, Some content) \<Longrightarrow>
   extract_file_paths E (map PStr content) = (out2, file_paths) \<Longrightarrow>
   snd (copy_file_paths E self file_paths) = (None, False) \<and>
   clipboard (main E f) = None \<and>
   exit_code (main E f) = 1 \<and>
   (list_all (stdout_encodes E) (manual_fallback (platform E) (join [10] file_paths)) \<longrightarrow>
      copy_file_paths E self file_paths =
        ([WarnUnsupported (platform E), PleaseCopyManually, Text (replicate 50 45),
          Text (join [10] file_paths), Text (replicate 50 45)], None, False) \<and>
      main E f =
        \<lparr>console = Processing f # out1 @ out2 @ [Found (length file_paths)]
           @ listing file_paths
           @ [WarnUnsupported (platform E), PleaseCopyManually, Text (replicate 50 45),
              Text (join [10] file_paths), Text (replicate 50 45)],
         clipboard = None, exit_code = 1\<rparr>)"
proof -
  assume p: "\<not> startswith (platform E) ''win''" and ne: "file_paths \<noteq> []"
    and r: "read_params_file E f = (out1, Some content)"
    and x: "extract_file_paths E (map PStr content) = (out2, file_paths)"
  let ?ms = "manual_fallback (platform E) (join [10] file_paths)"
  note c = copy_file_paths_unsupported [OF p ne]
  have a: "snd (copy_file_paths E s file_paths) = (None, False)" for s
    by (simp add: c Let_def)
  have m: "main E f =
      \<lparr>console = Processing f # out1 @ out2 @ [Found (length file_paths)]
         @ listing file_paths @ fst (copy_file_paths E (init E) file_paths),
       clipboard = None, exit_code = 1\<rparr>"
    using ne a [of "init E"] by (simp add: main_def process_read_ok [OF r x])
  have b: "copy_file_paths E s file_paths = (?ms, None, False)"
    if "list_all (stdout_encodes E) ?ms" for s
    using that by (simp add: c Let_def)
  have ms: "?ms = [WarnUnsupported (platform E), PleaseCopyManually, Text (replicate 50 45),
      Text (join [10] file_paths), Text (replicate 50 45)]"
    by (simp add: manual_fallback_def)
  have "clipboard (main E f) = None" and "exit_code (main E f) = 1"
    by (simp_all add: m)
  moreover have "copy_file_paths E self file_paths = (?ms, None, False) \<and>
      main E f =
        \<lparr>console = Processing f # out1 @ out2 @ [Found (length file_paths)]
           @ listing file_paths @ ?ms,
         clipboard = None, exit_code = 1\<rparr>"
    if "list_all (stdout_encodes E) ?ms"
    using b [OF that] m by simp
  ultimately show ?thesis using a [of self] unfolding ms by blast
qed

text \<open>
  Claim C1 as stated (exit code 0) fails: on \<open>linux\<close>, a file that lists \<open>x.txt\<close> and
  \<open>y.txt\<close> is read and extracted, and the run ends with an exit code other than 0.
\<close>

theorem C1_exit_code_counterexample:
  "\<not> startswith (platform unsupported_env) ''win'' \<and>
   extract_file_paths unsupported_env (map PStr [ascii ''x.txt'', ascii ''y.txt'']) =
     ([], [ascii ''x.txt'', ascii ''y.txt'']) \<and>
   read_params_file unsupported_env params_path = ([], Some [ascii ''x.txt'', ascii ''y.txt'']) \<and>
   exit_code (main unsupported_env params_path) \<noteq> 0"
  by (simp add: fixture_defs run_defs)

text \<open>
  The same run in full, on a console that encodes every message: the hypotheses of the
  amended claim hold, the fallback is printed and the exit code is 1.
\<close>

theorem C1_unsupported_platform_witness:
  "\<not> startswith (platform unsupported_env) ''win'' \<and>
   [ascii ''x.txt'', ascii ''y.txt''] \<noteq> [] \<and>
   read_params_file unsupported_env params_path = ([], Some [ascii ''x.txt'', ascii ''y.txt'']) \<and>
   extract_file_paths unsupported_env (map PStr [ascii ''x.txt'', ascii ''y.txt'']) =
     ([], [ascii ''x.txt'', ascii ''y.txt'']) \<and>
   list_all (stdout_encodes unsupported_env)
     (manual_fallback (platform unsupported_env)
        (join [10] [ascii ''x.txt'', ascii ''y.txt''])) \<and>
   copy_file_paths unsupported_env (init unsupported_env) [ascii ''x.txt'', ascii ''y.txt''] =
     ([WarnUnsupported ''linux'', PleaseCopyManually, Text (replicate 50 45),
       Text (ascii ''x.txt\<newline>y.txt''), Text (replicate 50 45)], None, False) \<and>
   main unsupported_env params_path =
     \<lparr>console = [Processing params_path, Found 2, Listing 1 (ascii ''x.txt''),
         Listing 2 (ascii ''y.txt''), WarnUnsupported ''linux'', PleaseCopyManually,
         Text (replicate 50 45), Text (ascii ''x.txt\<newline>y.txt''), Text (replicate 50 45)],
      clipboard = None, exit_code = 1\<rparr>"
proof -
  have h1: "\<not> startswith (platform unsupported_env) ''win''"
    by (simp add: fixture_defs startswith_def)
  have h2: "[ascii ''x.txt'', ascii ''y.txt''] \<noteq> []" by simp
  have h3: "read_params_file unsupported_env params_path =
      ([], Some [ascii ''x.txt'', ascii ''y.txt''])"
    by (simp add: fixture_defs read_params_file_def read_text_def decode_def is_file_def
        splitlines_def is_linebreak_def)
  have h4: "extract_file_paths unsupported_env (map PStr [ascii ''x.txt'', ascii ''y.txt'']) =
      ([], [ascii ''x.txt'', ascii ''y.txt''])"
    by (simp add: fixture_defs extract_file_paths_def try_body_def strip_def isspace_def
        lower_def isascii_def ascii_lower_def)
  have h5: "list_all (stdout_encodes unsupported_env)
     (manual_fallback (platform unsupported_env)
        (join [10] [ascii ''x.txt'', ascii ''y.txt'']))"
    by (simp add: fixture_defs manual_fallback_def)
  have p: "platform unsupported_env = ''linux''" by (simp add: fixture_defs)
  from C1_unsupported_platform [OF h1 h2 h3 h4, of "init unsupported_env"] h1 h2 h3 h4 h5
  show ?thesis by (simp add: p ascii_def listing_def upt_rec)
qed

text \<open>
  Claim C2. On the empty list \<open>copy_file_paths\<close> pipes nothing to the clipboard command,
  prints the hint that there is nothing to copy and returns (the value \<open>False\<close>) without
  raising. When the file is read and the extracted list is empty, \<open>process\<close> prints the
  hint that no valid path was found, does not call \<open>copy_file_paths\<close>, and \<open>main\<close> ends
  with exit code 0.
\<close>

theorem C2_nothing_to_copy:
  "copy_file_paths E self [] = ([HintNothingToCopy], None, False) \<and>
   (read_params_file E f = (out1, Some content) \<and>
    extract_file_paths E (map PStr content) = (out2, []) \<longrightarrow>
    main E f =
      \<lparr>console = Processing f # out1 @ out2 @ [HintNoValidPaths], clipboard = None,
       exit_code = 0\<rparr>)"
proof
  show "copy_file_paths E self [] = ([HintNothingToCopy], None, False)"
    by (simp add: copy_file_paths_def)
  show "read_params_file E f = (out1, Some content) \<and>
    extract_file_paths E (map PStr content) = (out2, []) \<longrightarrow>
    main E f =
      \<lparr>console = Processing f # out1 @ out2 @ [HintNoValidPaths], clipboard = None,
       exit_code = 0\<rparr>"
  proof
    assume a: "read_params_file E f = (out1, Some content) \<and>
      extract_file_paths E (map PStr content) = (out2, [])"
    then have r: "read_params_file E f = (out1, Some content)"
      and x: "extract_file_paths E (map PStr content) = (out2, [])" by simp_all
    show "main E f =
      \<lparr>console = Processing f # out1 @ out2 @ [HintNoValidPaths], clipboard = None,
       exit_code = 0\<rparr>"
      by (simp add: main_def process_read_ok [OF r x])
  qed
qed

text \<open>
  A file of blank lines only: the extracted list is empty and the exit code is 0.
\<close>

theorem C2_nothing_to_copy_witness:
  "read_params_file blank_env params_path = ([], Some [ascii ''  '', ascii '''', ascii '' '']) \<and>
   extract_file_paths blank_env (map PStr [ascii ''  '', ascii '''', ascii '' '']) = ([], []) \<and>
   copy_file_paths blank_env (init blank_env) [] = ([HintNothingToCopy], None, False) \<and>
   main blank_env params_path =
     \<lparr>console = [Processing params_path, HintNoValidPaths], clipboard = None, exit_code = 0\<rparr>"
proof -
  have r: "read_params_file blank_env params_path =
      ([], Some [ascii ''  '', ascii '''', ascii '' ''])"
    by (simp add: fixture_defs read_params_file_def read_text_def decode_def is_file_def
        splitlines_def is_linebreak_def)
  have x: "extract_file_paths blank_env (map PStr [ascii ''  '', ascii '''', ascii '' '']) =
      ([], [])"
    by (simp add: fixture_defs extract_file_paths_def try_body_def strip_def isspace_def)
  from C2_nothing_to_copy [of blank_env "init blank_env" params_path "[]"
      "[ascii ''  '', ascii '''', ascii '' '']" "[]"] r x
  show ?thesis by simp
qed

end
